theory Spec2Isabelle
  imports Complex_Main
begin

section \<open>Data model of the review feature (App.tsx)\<close>

text \<open>
  The review feature of \<^verbatim>\<open>App.tsx\<close> keeps three pieces of React state
  (\<^verbatim>\<open>reviewQueue\<close>, \<^verbatim>\<open>currentCardIndex\<close>, \<^verbatim>\<open>isFlipped\<close>) and talks to two
  backend tables, \<^verbatim>\<open>flashcards\<close> and \<^verbatim>\<open>knowledge_nodes\<close>.

  Conventions of the embedding:
  \<^item> JavaScript numbers that hold identifiers, indices and day counts are integers;
    \<^verbatim>\<open>currentInterval * 2.5\<close> is computed exactly (a double does so for every
    integer of magnitude below \<open>2 ^ 50\<close>).
  \<^item> A point in time is the number of milliseconds since the epoch. The source moves
    a \<^verbatim>\<open>Date\<close> forward with \<^verbatim>\<open>setDate(getDate() + n)\<close>, which adds \<open>n\<close>
    calendar days in local time; the embedding takes a calendar day to be
    \<open>86400000\<close> milliseconds (a zone without clock changes) and does not bound
    the range of a \<^verbatim>\<open>Date\<close>.
  \<^item> A nullable column is an \<open>option\<close>; a table is the list of its rows.
  \<^item> A backend call answers \<^verbatim>\<open>{ data, error }\<close> and never throws; a failed call
    has \<^verbatim>\<open>data = null\<close>. Whether a call succeeds is an input of the model.
  \<^item> The status line shown to the user is one constructor per message.
  \<^item> A handler runs from its first line to its last with no other event in between;
    its result is the state after its last line.
\<close>

type_synonym timestamp = int

record node_row =
  nid :: int
  category :: "string option"
  is_mastered :: bool
  interval_days :: "int option"
  next_review_at :: "timestamp option"

text \<open>The column \<^verbatim>\<open>back\<close> is the field \<open>back_text\<close>, and the two \<^verbatim>\<open>id\<close>
  columns are \<open>cid\<close> and \<open>nid\<close>.\<close>

record card_row =
  cid :: int
  node_id :: int
  front :: string
  back_text :: string

record node_info =
  kn_is_mastered :: bool
  kn_category :: string

record Flashcard = card_row +
  knowledge_nodes :: "node_info option"

record database =
  tbl_flashcards :: "card_row list"
  tbl_knowledge_nodes :: "node_row list"

datatype ModeType = Create | Review | Atlas

datatype action = Remember | Forget

datatype status =
    Welcome
  | Scanning
  | NoCards
  | NothingDue
  | ReadyToReview nat
  | RememberedIn int
  | ForgotTomorrow
  | ReviewComplete

record app_state =
  mode :: ModeType
  statusMsg :: status
  reviewQueue :: "Flashcard list"
  currentCardIndex :: nat
  isFlipped :: bool

section \<open>Small pieces of JavaScript\<close>

text \<open>\<^verbatim>\<open>xs[i]\<close>: the element, or \<^verbatim>\<open>undefined\<close> beyond the end.\<close>

fun js_index :: "'a list \<Rightarrow> nat \<Rightarrow> 'a option" where
  "js_index [] i = None"
| "js_index (x # xs) 0 = Some x"
| "js_index (x # xs) (Suc i) = js_index xs i"

text \<open>\<^verbatim>\<open>Math.ceil(n * 2.5)\<close> for an integer \<open>n\<close>.\<close>

definition ceil_times_2_5 :: "int \<Rightarrow> int" where
  "ceil_times_2_5 n = \<lceil>real_of_int n * 2.5\<rceil>"

text \<open>\<^verbatim>\<open>s.toLowerCase()\<close> on the ASCII letters.\<close>

definition lower_char :: "char \<Rightarrow> char" where
  "lower_char c =
     (let k = (of_char c :: nat)
      in if 65 \<le> k \<and> k \<le> 90 then char_of (k + 32) else c)"

definition toLowerCase :: "string \<Rightarrow> string" where
  "toLowerCase s = map lower_char s"

definition ms_per_day :: int where
  "ms_per_day = 86400000"

section \<open>Backend calls\<close>

text \<open>
  \<^verbatim>\<open>supabase.from('flashcards').select('*').limit(50)\<close>: the first fifty rows,
  or \<^verbatim>\<open>null\<close> when the call fails.
\<close>

definition select_flashcards :: "bool \<Rightarrow> database \<Rightarrow> card_row list option" where
  "select_flashcards ok db = (if ok then Some (take 50 (tbl_flashcards db)) else None)"

text \<open>
  \<^verbatim>\<open>.select('id, next_review_at, category').in('id', nodeIds).lte('next_review_at', nowISO)\<close>:
  a row whose \<^verbatim>\<open>next_review_at\<close> is null satisfies no comparison.
\<close>

definition due_at :: "timestamp \<Rightarrow> node_row \<Rightarrow> bool" where
  "due_at nowISO n = (case next_review_at n of None \<Rightarrow> False | Some t \<Rightarrow> t \<le> nowISO)"

definition select_due_nodes ::
  "bool \<Rightarrow> database \<Rightarrow> int list \<Rightarrow> timestamp \<Rightarrow> node_row list option" where
  "select_due_nodes ok db nodeIds nowISO =
     (if ok
      then Some (filter (\<lambda>n. nid n \<in> set nodeIds \<and> due_at nowISO n) (tbl_knowledge_nodes db))
      else None)"

text \<open>
  \<^verbatim>\<open>.select('interval_days').eq('id', x).single()\<close>: the column of the one matching
  row; \<^verbatim>\<open>data\<close> is \<^verbatim>\<open>null\<close> when the call fails or when the rows matching
  are not exactly one.
\<close>

definition select_interval_single :: "bool \<Rightarrow> database \<Rightarrow> int \<Rightarrow> int option option" where
  "select_interval_single ok db x =
     (if ok
      then (case filter (\<lambda>n. nid n = x) (tbl_knowledge_nodes db) of
              [n] \<Rightarrow> Some (interval_days n)
            | _ \<Rightarrow> None)
      else None)"

text \<open>
  \<^verbatim>\<open>.update({ next_review_at, interval_days }).eq('id', x)\<close>: writes the two columns
  of every matching row; a failed call writes nothing.
\<close>

definition update_review :: "bool \<Rightarrow> database \<Rightarrow> int \<Rightarrow> timestamp \<Rightarrow> int \<Rightarrow> database" where
  "update_review ok db x nextDate nextInterval =
     (if ok
      then db\<lparr>tbl_knowledge_nodes :=
                map (\<lambda>n. if nid n = x
                         then n\<lparr>next_review_at := Some nextDate, interval_days := Some nextInterval\<rparr>
                         else n)
                    (tbl_knowledge_nodes db)\<rparr>
      else db)"

section \<open>The operations of review mode\<close>

subsection \<open>fetchReviewCards\<close>

text \<open>
  \<^verbatim>\<open>nodesData?.find(n => n.id === card.node_id)\<close>, with \<^verbatim>\<open>nodesData\<close> possibly
  \<^verbatim>\<open>null\<close>.
\<close>

definition find_node :: "node_row list option \<Rightarrow> 'a card_row_scheme \<Rightarrow> node_row option" where
  "find_node nodesData c =
     (case nodesData of
        None \<Rightarrow> None
      | Some ns \<Rightarrow> find (\<lambda>n. nid n = node_id c) ns)"

text \<open>\<^verbatim>\<open>(node?.category || 'note').toLowerCase()\<close>: the empty string is falsy.\<close>

definition category_of :: "node_row option \<Rightarrow> string" where
  "category_of node =
     toLowerCase
       (case node of
          None \<Rightarrow> ''note''
        | Some n \<Rightarrow> (case category n of
                       None \<Rightarrow> ''note''
                     | Some c \<Rightarrow> if c = [] then ''note'' else c))"

text \<open>The object built by \<^verbatim>\<open>{ ...card, knowledge_nodes: { is_mastered: false, category } }\<close>.\<close>

definition attach_node :: "node_row list option \<Rightarrow> card_row \<Rightarrow> Flashcard" where
  "attach_node nodesData c =
     card_row.extend c
       \<lparr>knowledge_nodes =
          Some \<lparr>kn_is_mastered = False, kn_category = category_of (find_node nodesData c)\<rparr>\<rparr>"

text \<open>
  The arguments \<open>cards_ok\<close> and \<open>nodes_ok\<close> say whether the two backend calls
  succeed; \<open>nowISO\<close> is the clock read at the beginning.
\<close>

definition fetchReviewCards ::
  "bool \<Rightarrow> bool \<Rightarrow> timestamp \<Rightarrow> database \<Rightarrow> app_state \<Rightarrow> app_state" where
  "fetchReviewCards cards_ok nodes_ok nowISO db st =
     (case select_flashcards cards_ok db of
        None \<Rightarrow> st\<lparr>statusMsg := NoCards, reviewQueue := []\<rparr>
      | Some [] \<Rightarrow> st\<lparr>statusMsg := NoCards, reviewQueue := []\<rparr>
      | Some cardsData \<Rightarrow>
          (let nodeIds = map node_id cardsData;
               nodesData = select_due_nodes nodes_ok db nodeIds nowISO;
               validCards =
                 map (attach_node nodesData)
                     (filter (\<lambda>c. find_node nodesData c \<noteq> None) cardsData)
           in st\<lparr>statusMsg :=
                    (if length validCards = 0 then NothingDue
                     else ReadyToReview (length validCards)),
                  reviewQueue := validCards,
                  currentCardIndex := 0,
                  isFlipped := False\<rparr>))"

subsection \<open>The click on the card\<close>

text \<open>\<^verbatim>\<open>onClick={() => setIsFlipped(!isFlipped)}\<close> on the card.\<close>

definition flipCard :: "app_state \<Rightarrow> app_state" where
  "flipCard st = st\<lparr>isFlipped := \<not> isFlipped st\<rparr>"

subsection \<open>handleReviewAction\<close>

text \<open>
  Lines 252 to 260: the interval written for the graded node, from the answer of the
  interval lookup (\<^verbatim>\<open>oldNode?.interval_days || 0\<close> turns a missing row, a null
  column and \<open>0\<close> into \<open>0\<close>).
\<close>

definition nextIntervalOf :: "action \<Rightarrow> int option option \<Rightarrow> int" where
  "nextIntervalOf a oldNode =
     (case a of
        Remember \<Rightarrow>
          (let currentInterval =
                 (case oldNode of
                    None \<Rightarrow> 0
                  | Some None \<Rightarrow> 0
                  | Some (Some d) \<Rightarrow> d)
           in if currentInterval = 0 then 1 else ceil_times_2_5 currentInterval)
      | Forget \<Rightarrow> 1)"

text \<open>
  The arguments \<open>read_ok\<close> and \<open>write_ok\<close> say whether the lookup and the update
  succeed; \<open>now\<close> is the clock read by \<^verbatim>\<open>new Date()\<close> on line 262. The result
  is the backend and the React state after the handler has run.
\<close>

definition handleReviewAction ::
  "bool \<Rightarrow> bool \<Rightarrow> timestamp \<Rightarrow> action \<Rightarrow> database \<times> app_state \<Rightarrow> database \<times> app_state" where
  "handleReviewAction read_ok write_ok now a w =
     (let db = fst w; st = snd w
      in case js_index (reviewQueue st) (currentCardIndex st) of
           None \<Rightarrow> (db, st)
         | Some currentCard \<Rightarrow>
             (let oldNode = select_interval_single read_ok db (node_id currentCard);
                  nextInterval = nextIntervalOf a oldNode;
                  st1 = st\<lparr>statusMsg :=
                             (case a of Remember \<Rightarrow> RememberedIn nextInterval
                                      | Forget \<Rightarrow> ForgotTomorrow)\<rparr>;
                  nextDate = now + nextInterval * ms_per_day;
                  db' = update_review write_ok db (node_id currentCard) nextDate nextInterval;
                  st2 = st1\<lparr>isFlipped := False\<rparr>
              in if int (currentCardIndex st) < int (length (reviewQueue st)) - 1
                 then (db', st2\<lparr>currentCardIndex := currentCardIndex st2 + 1\<rparr>)
                 else (db', st2\<lparr>statusMsg := ReviewComplete, reviewQueue := []\<rparr>)))"

subsection \<open>What the review screen renders\<close>

text \<open>
  The card is rendered under \<^verbatim>\<open>mode === 'review'\<close> and
  \<^verbatim>\<open>reviewQueue.length > 0\<close>; the two grade buttons are rendered under
  \<^verbatim>\<open>isFlipped &&\<close> inside it.
\<close>

definition cardRendered :: "app_state \<Rightarrow> bool" where
  "cardRendered st = (mode st = Review \<and> length (reviewQueue st) > 0)"


section \<open>Sample data\<close>

text \<open>
  A small backend: node 10 was never reviewed, node 20 has interval 4 and is marked
  as mastered, node 40 has a null interval; card 3 points to a node that does not
  exist. The queue \<open>demo_queue\<close> is the one \<open>fetchReviewCards\<close> builds from it
  at time 600.
\<close>

definition demo_n10 :: node_row where
  "demo_n10 = \<lparr>nid = 10, category = Some ''Code'', is_mastered = False,
                interval_days = Some 0, next_review_at = Some 100\<rparr>"

definition demo_n20 :: node_row where
  "demo_n20 = \<lparr>nid = 20, category = None, is_mastered = True,
                interval_days = Some 4, next_review_at = Some 500\<rparr>"

definition demo_n40 :: node_row where
  "demo_n40 = \<lparr>nid = 40, category = Some ''english'', is_mastered = False,
                interval_days = None, next_review_at = Some 9000\<rparr>"

definition demo_c1 :: card_row where
  "demo_c1 = \<lparr>cid = 1, node_id = 10, front = ''map'', back_text = ''applies f''\<rparr>"

definition demo_c2 :: card_row where
  "demo_c2 = \<lparr>cid = 2, node_id = 20, front = ''star'', back_text = ''a sun''\<rparr>"

definition demo_c3 :: card_row where
  "demo_c3 = \<lparr>cid = 3, node_id = 30, front = ''lost'', back_text = ''no node''\<rparr>"

definition demo_c4 :: card_row where
  "demo_c4 = \<lparr>cid = 4, node_id = 40, front = ''orbit'', back_text = ''a path''\<rparr>"

definition demo_db :: database where
  "demo_db = \<lparr>tbl_flashcards = [demo_c1, demo_c2, demo_c3, demo_c4],
               tbl_knowledge_nodes = [demo_n10, demo_n20, demo_n40]\<rparr>"

definition demo_fc1 :: Flashcard where
  "demo_fc1 = \<lparr>cid = 1, node_id = 10, front = ''map'', back_text = ''applies f'',
                knowledge_nodes = Some \<lparr>kn_is_mastered = False, kn_category = ''code''\<rparr>\<rparr>"

definition demo_fc2 :: Flashcard where
  "demo_fc2 = \<lparr>cid = 2, node_id = 20, front = ''star'', back_text = ''a sun'',
                knowledge_nodes = Some \<lparr>kn_is_mastered = False, kn_category = ''note''\<rparr>\<rparr>"

definition demo_fc4 :: Flashcard where
  "demo_fc4 = \<lparr>cid = 4, node_id = 40, front = ''orbit'', back_text = ''a path'',
                knowledge_nodes = Some \<lparr>kn_is_mastered = False, kn_category = ''english''\<rparr>\<rparr>"

definition demo_queue :: "Flashcard list" where
  "demo_queue = [demo_fc1, demo_fc2]"

text \<open>The state \<open>Showing(i, revealed)\<close> over a queue.\<close>

definition showing :: "Flashcard list \<Rightarrow> nat \<Rightarrow> bool \<Rightarrow> app_state" where
  "showing q i revealed =
     \<lparr>mode = Review, statusMsg = ReadyToReview (length q), reviewQueue = q,
      currentCardIndex = i, isFlipped = revealed\<rparr>"

lemmas demo_defs =
  demo_n10_def demo_n20_def demo_n40_def demo_c1_def demo_c2_def demo_c3_def demo_c4_def
  demo_db_def demo_fc1_def demo_fc2_def demo_fc4_def demo_queue_def showing_def

section \<open>Auxiliary facts\<close>

lemma js_index_eq: "js_index xs i = (if i < length xs then Some (xs ! i) else None)"
  by (induction xs i rule: js_index.induct) simp_all

lemma handle_miss:
  "js_index (reviewQueue st) (currentCardIndex st) = None \<Longrightarrow>
   handleReviewAction r w now a (db, st) = (db, st)"
  by (simp add: handleReviewAction_def)

lemma handle_db:
  "js_index (reviewQueue st) (currentCardIndex st) = Some c \<Longrightarrow>
   fst (handleReviewAction r w now a (db, st)) =
     update_review w db (node_id c)
       (now + nextIntervalOf a (select_interval_single r db (node_id c)) * ms_per_day)
       (nextIntervalOf a (select_interval_single r db (node_id c)))"
  by (simp add: handleReviewAction_def Let_def)

lemma handle_state:
  "js_index (reviewQueue st) (currentCardIndex st) = Some c \<Longrightarrow>
   snd (handleReviewAction r w now a (db, st)) =
     (if Suc (currentCardIndex st) < length (reviewQueue st)
      then st\<lparr>statusMsg :=
                (case a of
                   Remember \<Rightarrow> RememberedIn (nextIntervalOf a (select_interval_single r db (node_id c)))
                 | Forget \<Rightarrow> ForgotTomorrow),
              isFlipped := False,
              currentCardIndex := Suc (currentCardIndex st)\<rparr>
      else st\<lparr>statusMsg := ReviewComplete, isFlipped := False, reviewQueue := []\<rparr>)"
  by (auto simp add: handleReviewAction_def Let_def)

lemma update_review_rows:
  "tbl_knowledge_nodes (update_review True db x t d) =
     map (\<lambda>n. if nid n = x then n\<lparr>next_review_at := Some t, interval_days := Some d\<rparr> else n)
       (tbl_knowledge_nodes db)"
  by (simp add: update_review_def)



lemma is_mastered_update:
  "map is_mastered (tbl_knowledge_nodes (update_review ok db x t d)) =
   map is_mastered (tbl_knowledge_nodes db)"
  by (simp add: update_review_def comp_def)

lemma truncate_attach: "card_row.truncate (attach_node nd c) = c"
  by (simp add: attach_node_def card_row.defs)

lemma node_id_attach: "node_id (attach_node nd c) = node_id c"
  by (simp add: attach_node_def card_row.defs)

lemma mastered_attach: "map_option kn_is_mastered (knowledge_nodes (attach_node nd c)) = Some False"
  by (simp add: attach_node_def card_row.defs)

lemma due_at_iff: "due_at nowISO n = (\<exists>t. next_review_at n = Some t \<and> t \<le> nowISO)"
  by (cases "next_review_at n") (simp_all add: due_at_def)

lemma find_found: "(find P xs \<noteq> None) = (\<exists>x\<in>set xs. P x)"
  by (auto simp add: find_None_iff)

lemma find_node_iff:
  "(find_node nodesData c \<noteq> None) =
     (case nodesData of None \<Rightarrow> False | Some ns \<Rightarrow> \<exists>n\<in>set ns. nid n = node_id c)"
  by (cases nodesData) (simp_all only: find_node_def option.case find_found simp_thms)

lemma find_node_due:
  assumes "node_id c \<in> set ids"
  shows "(find_node (select_due_nodes True db ids nowISO) c \<noteq> None) =
   (\<exists>n\<in>set (tbl_knowledge_nodes db).
       nid n = node_id c \<and> (\<exists>t. next_review_at n = Some t \<and> t \<le> nowISO))"
proof -
  have "(find_node (select_due_nodes True db ids nowISO) c \<noteq> None) =
      (\<exists>n\<in>set (tbl_knowledge_nodes db). (nid n \<in> set ids \<and> due_at nowISO n) \<and> nid n = node_id c)"
    unfolding find_node_iff by (simp add: select_due_nodes_def) blast
  also have "\<dots> = (\<exists>n\<in>set (tbl_knowledge_nodes db). nid n = node_id c \<and> due_at nowISO n)"
    by (rule bex_cong [OF refl]) (use assms in auto)
  finally show ?thesis by (simp only: due_at_iff)
qed

lemma find_node_resolves:
  assumes "find_node (select_due_nodes ok db ids nowISO) c \<noteq> None"
  shows "\<exists>n\<in>set (tbl_knowledge_nodes db).
           nid n = node_id c \<and> (\<exists>t. next_review_at n = Some t \<and> t \<le> nowISO)"
proof -
  from assms have "case select_due_nodes ok db ids nowISO of None \<Rightarrow> False
      | Some ns \<Rightarrow> \<exists>n\<in>set ns. nid n = node_id c"
    by (simp only: find_node_iff)
  then have "\<exists>n\<in>set (tbl_knowledge_nodes db). nid n = node_id c \<and> due_at nowISO n"
    by (cases ok) (auto simp add: select_due_nodes_def)
  then show ?thesis by (simp only: due_at_iff)
qed

lemma queue_of_fetch:
  "reviewQueue (fetchReviewCards cards_ok nodes_ok nowISO db st) =
     (case select_flashcards cards_ok db of
        None \<Rightarrow> []
      | Some cardsData \<Rightarrow>
          map (attach_node (select_due_nodes nodes_ok db (map node_id cardsData) nowISO))
            (filter (\<lambda>c. find_node (select_due_nodes nodes_ok db (map node_id cardsData) nowISO) c \<noteq> None)
               cardsData))"
  by (simp add: fetchReviewCards_def Let_def split: option.splits list.splits)

lemma lower_demo:
  "toLowerCase ''Code'' = ''code''" "toLowerCase ''note'' = ''note''"
  "toLowerCase ''english'' = ''english''"
  by code_simp+

text \<open>The queue built from the sample backend at time 600.\<close>

lemma demo_fetch:
  "reviewQueue (fetchReviewCards True True 600 demo_db st) = demo_queue"
  by (simp add: queue_of_fetch select_flashcards_def select_due_nodes_def due_at_def
      find_node_def attach_node_def card_row.defs category_of_def lower_demo demo_defs)

lemmas eval_defs =
  handleReviewAction_def Let_def select_interval_single_def nextIntervalOf_def
  ceil_times_2_5_def update_review_def ms_per_day_def demo_defs

section \<open>The scheduling rule\<close>



text \<open>
  Claim C2. Grading a card as forgotten computes the interval 1 whatever the interval
  lookup answered, and after a successful update every row of the graded node holds
  the interval 1.
\<close>

theorem forget_interval:
  assumes "js_index (reviewQueue st) (currentCardIndex st) = Some c"
  shows "nextIntervalOf Forget oldNode = 1 \<and>
    (\<forall>n \<in> set (tbl_knowledge_nodes (fst (handleReviewAction read_ok True now Forget (db, st)))).
        nid n = node_id c \<longrightarrow> interval_days n = Some 1)"
  by (auto simp add: handle_db [OF assms] update_review_rows nextIntervalOf_def)

theorem forget_interval_witness:
  "js_index (reviewQueue (showing demo_queue 1 True)) (currentCardIndex (showing demo_queue 1 True)) =
     Some demo_fc2 \<and>
   nextIntervalOf Forget (Some (Some 4)) = 1 \<and>
   tbl_knowledge_nodes
     (fst (handleReviewAction True True 1000 Forget (demo_db, showing demo_queue 1 True))) =
     [demo_n10,
      demo_n20\<lparr>next_review_at := Some 86401000, interval_days := Some 1\<rparr>,
      demo_n40]"
proof -
  have h1: "js_index (reviewQueue (showing demo_queue 1 True))
      (currentCardIndex (showing demo_queue 1 True)) = Some demo_fc2"
    by (simp add: js_index_eq demo_defs)
  have rows: "tbl_knowledge_nodes
     (fst (handleReviewAction True True 1000 Forget (demo_db, showing demo_queue 1 True))) =
     [demo_n10,
      demo_n20\<lparr>next_review_at := Some 86401000, interval_days := Some 1\<rparr>,
      demo_n40]"
    by (simp add: eval_defs)
  from forget_interval [OF h1, of "Some (Some 4)" True 1000 demo_db] h1 rows show ?thesis
    by simp
qed



text \<open>
  Claim C10. When the interval lookup gives no row (the call fails, or the rows of
  the node are not exactly one) or a row with a null interval, the interval computed
  is 1 for either grade, a successful update writes 1 into every row of the node, and
  the session moves on as after any other grade.
\<close>

theorem unreadable_interval:
  assumes "js_index (reviewQueue st) (currentCardIndex st) = Some c"
    and "select_interval_single read_ok db (node_id c) = None \<or>
         select_interval_single read_ok db (node_id c) = Some None"
  shows "nextIntervalOf a (select_interval_single read_ok db (node_id c)) = 1 \<and>
    (\<forall>n \<in> set (tbl_knowledge_nodes (fst (handleReviewAction read_ok True now a (db, st)))).
        nid n = node_id c \<longrightarrow> interval_days n = Some 1) \<and>
    (let st' = snd (handleReviewAction read_ok write_ok now a (db, st))
     in if currentCardIndex st + 1 < length (reviewQueue st)
        then reviewQueue st' = reviewQueue st \<and>
             currentCardIndex st' = currentCardIndex st + 1 \<and> \<not> isFlipped st'
        else reviewQueue st' = [] \<and> \<not> isFlipped st')"
proof -
  have one: "nextIntervalOf a (select_interval_single read_ok db (node_id c)) = 1"
    using assms(2) by (cases a) (auto simp add: nextIntervalOf_def)
  have rows: "\<forall>n \<in> set (tbl_knowledge_nodes (fst (handleReviewAction read_ok True now a (db, st)))).
        nid n = node_id c \<longrightarrow> interval_days n = Some 1"
    by (auto simp add: handle_db [OF assms(1)] update_review_rows one)
  show ?thesis
    using one rows handle_state [OF assms(1), of read_ok write_ok now a db]
    by (simp add: Let_def)
qed

theorem unreadable_interval_witness:
  "js_index (reviewQueue (showing [demo_fc4, demo_fc2] 0 True))
     (currentCardIndex (showing [demo_fc4, demo_fc2] 0 True)) = Some demo_fc4 \<and>
   select_interval_single True demo_db (node_id demo_fc4) = Some None \<and>
   nextIntervalOf Remember (select_interval_single True demo_db (node_id demo_fc4)) = 1 \<and>
   tbl_knowledge_nodes
     (fst (handleReviewAction True True 1000 Remember (demo_db, showing [demo_fc4, demo_fc2] 0 True))) =
     [demo_n10, demo_n20,
      demo_n40\<lparr>next_review_at := Some 86401000, interval_days := Some 1\<rparr>] \<and>
   currentCardIndex
     (snd (handleReviewAction True True 1000 Remember (demo_db, showing [demo_fc4, demo_fc2] 0 True))) = 1"
proof -
  have h1: "js_index (reviewQueue (showing [demo_fc4, demo_fc2] 0 True))
     (currentCardIndex (showing [demo_fc4, demo_fc2] 0 True)) = Some demo_fc4"
    by (simp add: demo_defs)
  have h2: "select_interval_single True demo_db (node_id demo_fc4) = Some None"
    by (simp add: select_interval_single_def demo_defs)
  have rows: "tbl_knowledge_nodes
     (fst (handleReviewAction True True 1000 Remember (demo_db, showing [demo_fc4, demo_fc2] 0 True))) =
     [demo_n10, demo_n20,
      demo_n40\<lparr>next_review_at := Some 86401000, interval_days := Some 1\<rparr>]"
    by (simp add: eval_defs)
  have len: "currentCardIndex (showing [demo_fc4, demo_fc2] 0 True) + 1 <
      length (reviewQueue (showing [demo_fc4, demo_fc2] 0 True))"
    by (simp add: demo_defs)
  from unreadable_interval [OF h1 disjI2 [OF h2], of Remember 1000 True] h1 h2 rows len
  show ?thesis
    by (simp add: Let_def showing_def)
qed

section \<open>The review session\<close>




text \<open>
  Claim C4, as the code has it. The click on the card toggles the reveal flag and
  changes neither the queue nor the cursor, so a second click hides the answer again
  and two clicks restore the state; with an empty queue the card is not rendered.
\<close>

theorem card_click_toggles:
  "isFlipped (flipCard st) = (\<not> isFlipped st) \<and>
   reviewQueue (flipCard st) = reviewQueue st \<and>
   currentCardIndex (flipCard st) = currentCardIndex st \<and>
   flipCard (flipCard st) = st \<and>
   \<not> cardRendered (st\<lparr>reviewQueue := []\<rparr>)"
  by (simp add: flipCard_def cardRendered_def)

text \<open>
  The claim C4 as stated fails: from the revealed state \<open>Showing(0, true)\<close> a click
  on the card yields \<open>Showing(0, false)\<close>.
\<close>

theorem second_click_counterexample:
  "cardRendered (showing demo_queue 0 True) \<and>
   flipCard (showing demo_queue 0 True) = showing demo_queue 0 False \<and>
   flipCard (showing demo_queue 0 True) \<noteq> showing demo_queue 0 True"
  by (simp add: flipCard_def cardRendered_def demo_defs)




section \<open>Building the queue\<close>

text \<open>
  Claim C8. When both backend calls succeed, the cards of the queue built by
  \<open>fetchReviewCards\<close> are, in order, exactly the fetched flashcards (the first
  fifty rows) whose \<^verbatim>\<open>node_id\<close> is the id of a node with \<^verbatim>\<open>next_review_at\<close> at or
  before the fetch time; and whatever the backend answers, every entry of the queue
  has such a node, so a card without a resolvable node never enters the queue.
\<close>

theorem fetch_queue_exact:
  "map card_row.truncate (reviewQueue (fetchReviewCards True True nowISO db st)) =
     filter (\<lambda>c. \<exists>n\<in>set (tbl_knowledge_nodes db).
                    nid n = node_id c \<and> (\<exists>t. next_review_at n = Some t \<and> t \<le> nowISO))
       (take 50 (tbl_flashcards db)) \<and>
   (\<forall>e\<in>set (reviewQueue (fetchReviewCards cards_ok nodes_ok nowISO db st)).
      \<exists>n\<in>set (tbl_knowledge_nodes db).
         nid n = node_id e \<and> (\<exists>t. next_review_at n = Some t \<and> t \<le> nowISO))"
proof
  let ?cs = "take 50 (tbl_flashcards db)"
  have "filter (\<lambda>c. find_node (select_due_nodes True db (map node_id ?cs) nowISO) c \<noteq> None) ?cs =
        filter (\<lambda>c. \<exists>n\<in>set (tbl_knowledge_nodes db).
                    nid n = node_id c \<and> (\<exists>t. next_review_at n = Some t \<and> t \<le> nowISO)) ?cs"
  proof (rule filter_cong [OF refl])
    fix c assume "c \<in> set ?cs"
    then have "node_id c \<in> set (map node_id ?cs)"
      by simp
    then show "(find_node (select_due_nodes True db (map node_id ?cs) nowISO) c \<noteq> None) =
        (\<exists>n\<in>set (tbl_knowledge_nodes db).
            nid n = node_id c \<and> (\<exists>t. next_review_at n = Some t \<and> t \<le> nowISO))"
      by (rule find_node_due)
  qed
  then show "map card_row.truncate (reviewQueue (fetchReviewCards True True nowISO db st)) =
     filter (\<lambda>c. \<exists>n\<in>set (tbl_knowledge_nodes db).
                    nid n = node_id c \<and> (\<exists>t. next_review_at n = Some t \<and> t \<le> nowISO)) ?cs"
    by (simp add: queue_of_fetch select_flashcards_def comp_def truncate_attach)
next
  show "\<forall>e\<in>set (reviewQueue (fetchReviewCards cards_ok nodes_ok nowISO db st)).
      \<exists>n\<in>set (tbl_knowledge_nodes db).
         nid n = node_id e \<and> (\<exists>t. next_review_at n = Some t \<and> t \<le> nowISO)"
  proof
    fix e assume "e \<in> set (reviewQueue (fetchReviewCards cards_ok nodes_ok nowISO db st))"
    then obtain cs :: "card_row list" and c where
      "e = attach_node (select_due_nodes nodes_ok db (map node_id cs) nowISO) c"
      "find_node (select_due_nodes nodes_ok db (map node_id cs) nowISO) c \<noteq> None"
      by (auto simp add: queue_of_fetch split: option.splits)
    then show "\<exists>n\<in>set (tbl_knowledge_nodes db).
         nid n = node_id e \<and> (\<exists>t. next_review_at n = Some t \<and> t \<le> nowISO)"
      using find_node_resolves by (simp add: node_id_attach)
  qed
qed

theorem fetch_queue_exact_witness:
  "reviewQueue (fetchReviewCards True True 600 demo_db (showing [] 0 False)) = [demo_fc1, demo_fc2] \<and>
   filter (\<lambda>c. \<exists>n\<in>set (tbl_knowledge_nodes demo_db).
                  nid n = node_id c \<and> (\<exists>t. next_review_at n = Some t \<and> t \<le> 600))
     (take 50 (tbl_flashcards demo_db)) = [demo_c1, demo_c2]"
proof -
  have q: "reviewQueue (fetchReviewCards True True 600 demo_db (showing [] 0 False)) =
      [demo_fc1, demo_fc2]"
    by (simp add: demo_fetch demo_queue_def)
  have t: "map card_row.truncate [demo_fc1, demo_fc2] = [demo_c1, demo_c2]"
    by (simp add: card_row.defs demo_defs)
  from fetch_queue_exact [of 600 demo_db "showing [] 0 False" True True] q t show ?thesis
    by simp
qed

text \<open>
  Claim C9. No operation of review mode sets a mastery flag: every entry of a queue
  built by \<open>fetchReviewCards\<close> carries the flag \<open>false\<close>; the click on the card
  keeps the queue; a grade leaves in the queue only entries that were in it, and
  leaves the \<^verbatim>\<open>is_mastered\<close> column of every node as it was.
\<close>

theorem mastery_never_set:
  "(\<forall>e\<in>set (reviewQueue (fetchReviewCards cards_ok nodes_ok nowISO db st)).
      map_option kn_is_mastered (knowledge_nodes e) = Some False) \<and>
   reviewQueue (flipCard st) = reviewQueue st \<and>
   set (reviewQueue (snd (handleReviewAction read_ok write_ok now a (db, st)))) \<subseteq>
     set (reviewQueue st) \<and>
   map is_mastered (tbl_knowledge_nodes (fst (handleReviewAction read_ok write_ok now a (db, st)))) =
     map is_mastered (tbl_knowledge_nodes db)"
proof (intro conjI)
  show "\<forall>e\<in>set (reviewQueue (fetchReviewCards cards_ok nodes_ok nowISO db st)).
      map_option kn_is_mastered (knowledge_nodes e) = Some False"
  proof
    fix e assume "e \<in> set (reviewQueue (fetchReviewCards cards_ok nodes_ok nowISO db st))"
    then obtain nd c where "e = attach_node nd c"
      by (auto simp add: queue_of_fetch split: option.splits)
    then show "map_option kn_is_mastered (knowledge_nodes e) = Some False"
      by (simp only: mastered_attach)
  qed
  show "reviewQueue (flipCard st) = reviewQueue st"
    by (simp add: flipCard_def)
  show "set (reviewQueue (snd (handleReviewAction read_ok write_ok now a (db, st)))) \<subseteq>
      set (reviewQueue st)"
    by (cases "js_index (reviewQueue st) (currentCardIndex st)")
       (simp_all add: handle_miss handle_state)
  show "map is_mastered
      (tbl_knowledge_nodes (fst (handleReviewAction read_ok write_ok now a (db, st)))) =
     map is_mastered (tbl_knowledge_nodes db)"
    by (cases "js_index (reviewQueue st) (currentCardIndex st)")
       (simp_all add: handle_miss handle_db is_mastered_update)
qed

theorem mastery_never_set_witness:
  "reviewQueue (fetchReviewCards True True 600 demo_db (showing [] 0 False)) = [demo_fc1, demo_fc2] \<and>
   map is_mastered (tbl_knowledge_nodes demo_db) = [False, True, False] \<and>
   map (\<lambda>e. map_option kn_is_mastered (knowledge_nodes e)) [demo_fc1, demo_fc2] =
     [Some False, Some False] \<and>
   map is_mastered
     (tbl_knowledge_nodes
        (fst (handleReviewAction True True 1000 Remember (demo_db, showing demo_queue 1 True)))) =
     [False, True, False]"
proof -
  have q: "reviewQueue (fetchReviewCards True True 600 demo_db (showing [] 0 False)) =
      [demo_fc1, demo_fc2]"
    by (simp add: demo_fetch demo_queue_def)
  have m: "map is_mastered (tbl_knowledge_nodes demo_db) = [False, True, False]"
    by (simp add: demo_defs)
  from mastery_never_set [of True True 600 demo_db "showing [] 0 False" True True 1000 Remember]
    mastery_never_set [of True True 600 demo_db "showing demo_queue 1 True" True True 1000 Remember]
    q m
  show ?thesis
    by simp
qed

end
